theory Spec2Isabelle
  imports Complex_Main "HOL-Library.Char_ord" "HOL-Library.List_Lexorder"
    "HOL-Library.Product_Lexorder"
begin

section \<open>Python text primitives\<close>

text \<open>
  A Python \<open>str\<close> is modelled as a \<open>string\<close> whose characters are the code points
  0..255 (ASCII and Latin-1).  The character classes below are those of
  \<open>str.isspace\<close>, \<open>str.isalnum\<close> and \<open>str.lower\<close> on that range.
\<close>

definition code :: "char \<Rightarrow> nat" where
  "code c = of_char c"

definition py_isspace :: "char \<Rightarrow> bool" where
  "py_isspace c = (let n = code c in
     (9 \<le> n \<and> n \<le> 13) \<or> (28 \<le> n \<and> n \<le> 32) \<or> n = 133 \<or> n = 160)"

definition is_digit :: "char \<Rightarrow> bool" where
  "is_digit c = (let n = code c in 48 \<le> n \<and> n \<le> 57)"

definition py_isalnum :: "char \<Rightarrow> bool" where
  "py_isalnum c = (let n = code c in
     (48 \<le> n \<and> n \<le> 57) \<or> (65 \<le> n \<and> n \<le> 90) \<or> (97 \<le> n \<and> n \<le> 122) \<or>
     n = 170 \<or> n = 178 \<or> n = 179 \<or> n = 181 \<or> n = 185 \<or> n = 186 \<or>
     (188 \<le> n \<and> n \<le> 190) \<or> (192 \<le> n \<and> n \<le> 214) \<or>
     (216 \<le> n \<and> n \<le> 246) \<or> (248 \<le> n \<and> n \<le> 255))"

definition lower_char :: "char \<Rightarrow> char" where
  "lower_char c = (let n = code c in
     if (65 \<le> n \<and> n \<le> 90) \<or> (192 \<le> n \<and> n \<le> 214) \<or> (216 \<le> n \<and> n \<le> 222)
     then char_of (n + 32) else c)"

definition py_lower :: "string \<Rightarrow> string" where
  "py_lower s = map lower_char s"

text \<open>\<open>s.strip()\<close>: whitespace is removed from both ends.\<close>

definition py_strip :: "string \<Rightarrow> string" where
  "py_strip s = rev (dropWhile py_isspace (rev (dropWhile py_isspace s)))"

text \<open>\<open>s.split(sep)\<close> for a one-character separator: always at least one part.\<close>

fun split_on :: "char \<Rightarrow> string \<Rightarrow> string list" where
  "split_on sep [] = [[]]"
| "split_on sep (c # cs) =
     (if c = sep then [] # split_on sep cs
      else (case split_on sep cs of [] \<Rightarrow> [[c]] | p # ps \<Rightarrow> (c # p) # ps))"

text \<open>\<open>s.split()\<close>: the maximal runs of non-whitespace characters; never an empty part.\<close>

fun ws_split :: "string \<Rightarrow> string \<Rightarrow> string list" where
  "ws_split cur [] = (if cur = [] then [] else [rev cur])"
| "ws_split cur (c # cs) =
     (if py_isspace c then (if cur = [] then ws_split [] cs else rev cur # ws_split [] cs)
      else ws_split (c # cur) cs)"

definition py_split :: "string \<Rightarrow> string list" where
  "py_split s = ws_split [] s"

text \<open>\<open>x in y\<close> on strings: \<open>x\<close> occurs in \<open>y\<close> as a contiguous block.\<close>

fun is_prefix :: "string \<Rightarrow> string \<Rightarrow> bool" where
  "is_prefix [] ys = True"
| "is_prefix (x # xs) [] = False"
| "is_prefix (x # xs) (y # ys) = (x = y \<and> is_prefix xs ys)"

fun py_in :: "string \<Rightarrow> string \<Rightarrow> bool" where
  "py_in x [] = (x = [])"
| "py_in x (y # ys) = (is_prefix x (y # ys) \<or> py_in x ys)"

section \<open>Python floats and \<open>float(str)\<close>\<close>

text \<open>
  A Python float is a finite number, an infinity, or NaN; NaN is the missing marker of
  pandas (\<open>np.nan\<close>).  Finite values are modelled as exact reals: the rounding and the
  overflow of binary64 and the sign of zero are not part of the model.
\<close>

datatype pyfloat = Fin real | PInf | NInf | NaN

definition pf_sign :: "pyfloat \<Rightarrow> int" where
  "pf_sign f = (case f of Fin r \<Rightarrow> (if r < 0 then -1 else if r = 0 then 0 else 1)
                | PInf \<Rightarrow> 1 | NInf \<Rightarrow> -1 | NaN \<Rightarrow> 0)"

fun pf_mul :: "pyfloat \<Rightarrow> pyfloat \<Rightarrow> pyfloat" where
  "pf_mul NaN y = NaN"
| "pf_mul x NaN = NaN"
| "pf_mul (Fin a) (Fin b) = Fin (a * b)"
| "pf_mul x y = (let s = pf_sign x * pf_sign y in
                   if s = 0 then NaN else if 0 < s then PInf else NInf)"

fun pf_add :: "pyfloat \<Rightarrow> pyfloat \<Rightarrow> pyfloat" where
  "pf_add NaN y = NaN"
| "pf_add x NaN = NaN"
| "pf_add (Fin a) (Fin b) = Fin (a + b)"
| "pf_add PInf NInf = NaN"
| "pf_add NInf PInf = NaN"
| "pf_add PInf y = PInf"
| "pf_add NInf y = NInf"
| "pf_add x PInf = PInf"
| "pf_add x NInf = NInf"

definition isnan :: "pyfloat \<Rightarrow> bool" where
  "isnan f = (f = NaN)"

text \<open>
  \<open>float(s)\<close> first checks the underscores of the literal (one underscore may stand
  between two digits, nowhere else) and removes them, then strips whitespace, then reads
  an optional sign followed by \<open>inf\<close>, \<open>infinity\<close> or \<open>nan\<close> in any letter case, or
  by a decimal literal with an optional exponent.  \<open>None\<close> stands for \<open>ValueError\<close>.
\<close>

fun us_scan :: "char \<Rightarrow> string \<Rightarrow> string option" where
  "us_scan prev [] = (if prev = CHR ''_'' then None else Some [])"
| "us_scan prev (c # cs) =
     (if c = CHR ''_'' then (if is_digit prev then us_scan c cs else None)
      else if prev = CHR ''_'' \<and> \<not> is_digit c then None
      else map_option ((#) c) (us_scan c cs))"

definition digit_val :: "char \<Rightarrow> nat" where
  "digit_val c = code c - 48"

definition digits_val :: "string \<Rightarrow> nat" where
  "digits_val ds = foldl (\<lambda>a c. 10 * a + digit_val c) 0 ds"

text \<open>An optional sign: the flag is \<open>True\<close> for a minus sign.\<close>

fun read_sign :: "string \<Rightarrow> bool \<times> string" where
  "read_sign (c # cs) =
     (if c = CHR ''-'' then (True, cs) else if c = CHR ''+'' then (False, cs)
      else (False, c # cs))"
| "read_sign [] = (False, [])"

text \<open>The exponent part of a decimal literal: empty, or \<open>e\<close>, a sign and digits.\<close>

definition read_exponent :: "string \<Rightarrow> int option" where
  "read_exponent s =
     (case s of [] \<Rightarrow> Some 0
      | c # cs \<Rightarrow>
          if c = CHR ''e'' \<or> c = CHR ''E'' then
            (let (neg, r) = read_sign cs;
                 ds = takeWhile is_digit r
             in if ds = [] \<or> dropWhile is_digit r \<noteq> [] then None
                else Some (if neg then - int (digits_val ds) else int (digits_val ds)))
          else None)"

definition scale10 :: "real \<Rightarrow> int \<Rightarrow> real" where
  "scale10 x e = (if 0 \<le> e then x * 10 ^ nat e else x / 10 ^ nat (- e))"

definition read_decimal :: "string \<Rightarrow> real option" where
  "read_decimal s =
     (let ip = takeWhile is_digit s;
          r1 = dropWhile is_digit s;
          (fp, r2) = (case r1 of [] \<Rightarrow> ([], [])
                      | c # cs \<Rightarrow> if c = CHR ''.''
                                 then (takeWhile is_digit cs, dropWhile is_digit cs)
                                 else ([], r1))
      in if ip = [] \<and> fp = [] then None
         else (case read_exponent r2 of None \<Rightarrow> None
               | Some e \<Rightarrow>
                   Some (scale10 (real (digits_val ip) +
                                  real (digits_val fp) / 10 ^ length fp) e)))"

definition read_number :: "string \<Rightarrow> pyfloat option" where
  "read_number s =
     (let (neg, r) = read_sign s; w = py_lower r
      in if w = ''inf'' \<or> w = ''infinity'' then Some (if neg then NInf else PInf)
         else if w = ''nan'' then Some NaN
         else (case read_decimal r of None \<Rightarrow> None
               | Some x \<Rightarrow> Some (Fin (if neg then - x else x))))"

definition py_float :: "string \<Rightarrow> pyfloat option" where
  "py_float s = (case us_scan (CHR 0x00) s of None \<Rightarrow> None
                 | Some t \<Rightarrow> read_number (py_strip t))"

section \<open>Duration parsing\<close>

text \<open>
  The values a cell of the duration column can hold.  \<open>pd.isna\<close> is true of \<open>None\<close>
  and of a NaN float.
\<close>

datatype pyval = PyNone | PyBool bool | PyInt int | PyFloat pyfloat | PyStr string

fun pd_isna :: "pyval \<Rightarrow> bool" where
  "pd_isna PyNone = True"
| "pd_isna (PyFloat f) = isnan f"
| "pd_isna _ = False"

text \<open>
  \<open>to_seconds\<close> of \<^verbatim>\<open>app_talktime_v3_6.py\<close> (the same function is
  \<open>_parse_duration_to_seconds\<close> in \<^verbatim>\<open>app_talktime.py\<close>).  \<open>to_seconds_text\<close> is
  the body from \<open>s = str(x).strip()\<close> on, applied to \<open>str(x)\<close>.  The list
  comprehension \<open>[float(p) for p in parts]\<close> raises as soon as one part is no number,
  which is \<open>those\<close> returning \<open>None\<close>; the arity test comes after it.
\<close>

definition to_seconds_text :: "string \<Rightarrow> pyfloat" where
  "to_seconds_text x =
     (let s = py_strip x in
      case py_float s of Some f \<Rightarrow> f
      | None \<Rightarrow>
        (case those (map py_float (split_on (CHR '':'') s)) of
           None \<Rightarrow> NaN
         | Some parts \<Rightarrow>
             (case parts of
                [m, s] \<Rightarrow> pf_add (pf_mul m (Fin 60)) s
              | [h, m, s] \<Rightarrow>
                  pf_add (pf_add (pf_mul h (Fin 3600)) (pf_mul m (Fin 60))) s
              | _ \<Rightarrow> NaN)))"

text \<open>\<open>str(True)\<close> is \<open>'True'\<close>, \<open>str(False)\<close> is \<open>'False'\<close>.\<close>

definition str_bool :: "bool \<Rightarrow> string" where
  "str_bool b = (if b then ''True'' else ''False'')"

definition to_seconds :: "pyval \<Rightarrow> pyfloat" where
  "to_seconds x =
     (if pd_isna x then NaN
      else (case x of
              PyInt n \<Rightarrow> Fin (real_of_int n)
            | PyFloat f \<Rightarrow> f
            | PyBool b \<Rightarrow> to_seconds_text (str_bool b)
            | PyStr s \<Rightarrow> to_seconds_text s
            | PyNone \<Rightarrow> NaN))"






section \<open>Name matching\<close>

subsection \<open>\<open>difflib.SequenceMatcher(None, a, b).ratio()\<close>\<close>

text \<open>
  The similarity ratio of the Python standard library, as \<open>fuzzy_match_any\<close> calls it:
  no junk predicate, and the automatic junk heuristic on.  \<open>b2j\<close> lists, for an element,
  its positions in \<open>b\<close> in increasing order; when \<open>b\<close> has 200 elements or more, an
  element that occurs more than \<open>n // 100 + 1\<close> times is popular and has no positions.
\<close>

definition popular :: "string \<Rightarrow> char \<Rightarrow> bool" where
  "popular b c = (let n = length b in 200 \<le> n \<and> n div 100 + 1 < count_list b c)"

definition b2j :: "string \<Rightarrow> char \<Rightarrow> nat list" where
  "b2j b c = (if popular b c then [] else filter (\<lambda>j. b ! j = c) [0..<length b])"

text \<open>
  \<open>find_longest_match(alo, ahi, blo, bhi)\<close>.  The state of the two nested loops is the
  dictionary \<open>j2len\<close> of the previous row, the dictionary \<open>newj2len\<close> of this row, and
  the best block \<open>(besti, bestj, bestsize)\<close>.  \<open>j2len.get(j-1, 0)\<close> is \<open>0\<close> at \<open>j = 0\<close>,
  where \<open>j-1\<close> is no key.  The start \<open>i-k+1\<close> of a block is never negative, since a block
  that ends at \<open>i\<close> and began at or after \<open>alo\<close> has at most \<open>i-alo+1\<close> elements.
\<close>

type_synonym block = "nat \<times> nat \<times> nat"

definition j2len_get :: "(nat \<rightharpoonup> nat) \<Rightarrow> nat \<Rightarrow> nat" where
  "j2len_get j2len j =
     (if j = 0 then 0 else (case j2len (j - 1) of None \<Rightarrow> 0 | Some l \<Rightarrow> l))"

definition inner_step ::
  "nat \<Rightarrow> (nat \<rightharpoonup> nat) \<Rightarrow> (nat \<rightharpoonup> nat) \<times> block \<Rightarrow> nat \<Rightarrow> (nat \<rightharpoonup> nat) \<times> block" where
  "inner_step i j2len st j =
     (let k = j2len_get j2len j + 1
      in ((fst st)(j \<mapsto> k),
          if snd (snd (snd st)) < k then (i + 1 - k, j + 1 - k, k) else snd st))"

definition outer_step ::
  "string \<Rightarrow> string \<Rightarrow> nat \<Rightarrow> nat \<Rightarrow> (nat \<rightharpoonup> nat) \<times> block \<Rightarrow> nat \<Rightarrow> (nat \<rightharpoonup> nat) \<times> block" where
  "outer_step a b blo bhi st i =
     foldl (inner_step i (fst st)) (Map.empty, snd st)
       (filter (\<lambda>j. blo \<le> j \<and> j < bhi) (b2j b (a ! i)))"

definition longest_junk_free ::
  "string \<Rightarrow> string \<Rightarrow> nat \<Rightarrow> nat \<Rightarrow> nat \<Rightarrow> nat \<Rightarrow> block" where
  "longest_junk_free a b alo ahi blo bhi =
     snd (foldl (outer_step a b blo bhi) (Map.empty, (alo, blo, 0)) [alo..<ahi])"

text \<open>
  The two loops that extend the best block by equal elements on each end.  With no junk
  predicate \<open>isbjunk\<close> is false everywhere, so the two further loops that take up
  junk never run.
\<close>

function extend_left :: "string \<Rightarrow> string \<Rightarrow> nat \<Rightarrow> nat \<Rightarrow> block \<Rightarrow> block" where
  "extend_left a b alo blo (besti, bestj, bestsize) =
     (if alo < besti \<and> blo < bestj \<and> a ! (besti - 1) = b ! (bestj - 1)
      then extend_left a b alo blo (besti - 1, bestj - 1, bestsize + 1)
      else (besti, bestj, bestsize))"
  by pat_completeness auto
termination
  by (relation "measure (\<lambda>(a, b, alo, blo, besti, bestj, bestsize). besti)") auto

declare extend_left.simps [simp del]

function extend_right :: "string \<Rightarrow> string \<Rightarrow> nat \<Rightarrow> nat \<Rightarrow> block \<Rightarrow> block" where
  "extend_right a b ahi bhi (besti, bestj, bestsize) =
     (if besti + bestsize < ahi \<and> bestj + bestsize < bhi \<and>
         a ! (besti + bestsize) = b ! (bestj + bestsize)
      then extend_right a b ahi bhi (besti, bestj, bestsize + 1)
      else (besti, bestj, bestsize))"
  by pat_completeness auto
termination
  by (relation "measure (\<lambda>(a, b, ahi, bhi, besti, bestj, bestsize). ahi - (besti + bestsize))")
     auto

declare extend_right.simps [simp del]

definition find_longest_match ::
  "string \<Rightarrow> string \<Rightarrow> nat \<Rightarrow> nat \<Rightarrow> nat \<Rightarrow> nat \<Rightarrow> block" where
  "find_longest_match a b alo ahi blo bhi =
     extend_right a b ahi bhi
       (extend_left a b alo blo (longest_junk_free a b alo ahi blo bhi))"

text \<open>
  \<open>get_matching_blocks\<close> takes the longest block of a range and then works on the
  ranges to its left and to its right (a queue in the source; the sum of the block sizes,
  which is all that \<open>ratio\<close> uses, does not depend on the order).  The recursion ends
  because a block found in \<open>a[alo:ahi]\<close> lies inside that range, which is shown first.
\<close>

definition block_ok :: "nat \<Rightarrow> nat \<Rightarrow> block \<Rightarrow> bool" where
  "block_ok alo hi blk = (alo \<le> fst blk \<and> fst blk + snd (snd blk) \<le> hi)"

definition row_ok :: "nat \<Rightarrow> (nat \<rightharpoonup> nat) \<Rightarrow> bool" where
  "row_ok bound m = (\<forall>j l. m j = Some l \<longrightarrow> l \<le> bound)"

lemma j2len_get_le: "row_ok bound m \<Longrightarrow> j2len_get m j \<le> bound"
  by (auto simp: row_ok_def j2len_get_def split: option.splits)

lemma inner_step_ok:
  assumes "alo \<le> i" "row_ok (i - alo) j2len"
    and "row_ok (i + 1 - alo) (fst st)" "block_ok alo (i + 1) (snd st)"
  shows "row_ok (i + 1 - alo) (fst (inner_step i j2len st j))
         \<and> block_ok alo (i + 1) (snd (inner_step i j2len st j))"
proof -
  define k where "k = j2len_get j2len j + 1"
  have k: "k \<le> i + 1 - alo"
    using j2len_get_le [OF assms(2), of j] assms(1) by (simp add: k_def)
  have f: "fst (inner_step i j2len st j) = (fst st)(j \<mapsto> k)"
    by (simp add: inner_step_def k_def)
  have s: "snd (inner_step i j2len st j) =
             (if snd (snd (snd st)) < k then (i + 1 - k, j + 1 - k, k) else snd st)"
    by (simp add: inner_step_def k_def)
  have "row_ok (i + 1 - alo) ((fst st)(j \<mapsto> k))"
    using assms(3) k unfolding row_ok_def by simp
  moreover have "block_ok alo (i + 1) (i + 1 - k, j + 1 - k, k)"
    using k assms(1) unfolding block_ok_def by simp
  ultimately show ?thesis
    using assms(4) unfolding f s by simp
qed

lemma inner_fold_ok:
  assumes "alo \<le> i" "row_ok (i - alo) j2len"
  shows "row_ok (i + 1 - alo) (fst st) \<Longrightarrow> block_ok alo (i + 1) (snd st) \<Longrightarrow>
         row_ok (i + 1 - alo) (fst (foldl (inner_step i j2len) st js))
         \<and> block_ok alo (i + 1) (snd (foldl (inner_step i j2len) st js))"
proof (induction js arbitrary: st)
  case Nil
  then show ?case by simp
next
  case (Cons j js)
  from inner_step_ok [OF assms Cons.prems, of j]
  show ?case using Cons.IH by simp
qed

lemma outer_step_ok:
  assumes "alo \<le> i" "row_ok (i - alo) (fst st)" "block_ok alo i (snd st)"
  shows "row_ok (Suc i - alo) (fst (outer_step a b blo bhi st i))
         \<and> block_ok alo (Suc i) (snd (outer_step a b blo bhi st i))"
proof -
  have "row_ok (i + 1 - alo) (fst (Map.empty :: nat \<rightharpoonup> nat, snd st))"
    by (simp add: row_ok_def)
  moreover have "block_ok alo (i + 1) (snd (Map.empty :: nat \<rightharpoonup> nat, snd st))"
    using assms(3) by (simp add: block_ok_def)
  ultimately show ?thesis
    using inner_fold_ok [OF assms(1,2), of "(Map.empty, snd st)"]
    by (simp add: outer_step_def)
qed

lemma outer_fold_ok:
  assumes "alo \<le> n"
  shows "row_ok (n - alo) (fst (foldl (outer_step a b blo bhi) (Map.empty, (alo, blo, 0)) [alo..<n]))
         \<and> block_ok alo n (snd (foldl (outer_step a b blo bhi) (Map.empty, (alo, blo, 0)) [alo..<n]))"
  using assms
proof (induction n rule: dec_induct)
  case base
  show ?case by (simp add: row_ok_def block_ok_def)
next
  case (step n)
  then show ?case using outer_step_ok [OF step.hyps(1)] by simp
qed

lemma longest_junk_free_ok:
  "alo \<le> ahi \<Longrightarrow> block_ok alo ahi (longest_junk_free a b alo ahi blo bhi)"
  using outer_fold_ok [of alo ahi a b blo bhi] by (simp add: longest_junk_free_def)

lemma extend_left_ok:
  "block_ok alo ahi blk \<Longrightarrow> block_ok alo ahi (extend_left a b alo blo blk)"
proof (induction a b alo blo blk rule: extend_left.induct)
  case (1 a b alo blo besti bestj bestsize)
  show ?case
  proof (cases "alo < besti \<and> blo < bestj \<and> a ! (besti - 1) = b ! (bestj - 1)")
    case True
    then have "block_ok alo ahi (besti - 1, bestj - 1, bestsize + 1)"
      using "1.prems" by (auto simp: block_ok_def)
    with True "1.IH" show ?thesis
      by (subst extend_left.simps) simp
  next
    case False
    with "1.prems" show ?thesis
      by (subst extend_left.simps) auto
  qed
qed

lemma extend_right_ok:
  "block_ok alo ahi blk \<Longrightarrow> block_ok alo ahi (extend_right a b ahi bhi blk)"
proof (induction a b ahi bhi blk rule: extend_right.induct)
  case (1 a b ahi bhi besti bestj bestsize)
  show ?case
  proof (cases "besti + bestsize < ahi \<and> bestj + bestsize < bhi \<and>
                a ! (besti + bestsize) = b ! (bestj + bestsize)")
    case True
    then have "block_ok alo ahi (besti, bestj, bestsize + 1)"
      using "1.prems" by (auto simp: block_ok_def)
    with True "1.IH" show ?thesis
      by (subst extend_right.simps) simp
  next
    case False
    with "1.prems" show ?thesis
      by (subst extend_right.simps) auto
  qed
qed

lemma find_longest_match_ok:
  "alo \<le> ahi \<Longrightarrow> block_ok alo ahi (find_longest_match a b alo ahi blo bhi)"
  by (simp add: find_longest_match_def extend_right_ok extend_left_ok longest_junk_free_ok)

lemma find_longest_match_empty:
  "ahi \<le> alo \<Longrightarrow> find_longest_match a b alo ahi blo bhi = (alo, blo, 0)"
  by (simp add: find_longest_match_def longest_junk_free_def extend_left.simps extend_right.simps)


lemma find_longest_match_bounds:
  assumes "find_longest_match a b alo ahi blo bhi = (i, j, k)" "k \<noteq> 0"
  shows "alo \<le> i \<and> i + k \<le> ahi"
proof -
  have "alo < ahi"
  proof (rule ccontr)
    assume "\<not> alo < ahi"
    then have "find_longest_match a b alo ahi blo bhi = (alo, blo, 0)"
      by (simp add: find_longest_match_empty)
    with assms show False by simp
  qed
  then have "block_ok alo ahi (i, j, k)"
    using find_longest_match_ok [of alo ahi a b blo bhi] assms(1) by simp
  then show ?thesis by (simp add: block_ok_def)
qed

function matches :: "string \<Rightarrow> string \<Rightarrow> nat \<Rightarrow> nat \<Rightarrow> nat \<Rightarrow> nat \<Rightarrow> nat" where
  "matches a b alo ahi blo bhi =
     (case find_longest_match a b alo ahi blo bhi of
        (i, j, k) \<Rightarrow>
          if k = 0 then 0
          else k + (if alo < i \<and> blo < j then matches a b alo i blo j else 0)
                 + (if i + k < ahi \<and> j + k < bhi then matches a b (i + k) ahi (j + k) bhi
                    else 0))"
  by pat_completeness auto
termination
proof (relation "measure (\<lambda>(a, b, alo, ahi, blo, bhi). ahi - alo)", goal_cases)
  case 1
  show ?case by simp
next
  case (2 a b alo ahi blo bhi i rest j k)
  from 2(1) have "find_longest_match a b alo ahi blo bhi = (i, rest)" by simp
  moreover from 2(2) have "rest = (j, k)" by simp
  ultimately have "find_longest_match a b alo ahi blo bhi = (i, j, k)" by simp
  from find_longest_match_bounds [OF this] 2(3) show ?case by auto
next
  case (3 a b alo ahi blo bhi i rest j k)
  from 3(1) have "find_longest_match a b alo ahi blo bhi = (i, rest)" by simp
  moreover from 3(2) have "rest = (j, k)" by simp
  ultimately have "find_longest_match a b alo ahi blo bhi = (i, j, k)" by simp
  from find_longest_match_bounds [OF this] 3(3,4) show ?case by auto
qed

declare matches.simps [simp del]

definition ratio :: "string \<Rightarrow> string \<Rightarrow> real" where
  "ratio a b =
     (let la = length a; lb = length b; m = matches a b 0 la 0 lb
      in if la + lb \<noteq> 0 then 2 * real m / real (la + lb) else 1)"


subsection \<open>\<open>norm_name\<close> and \<open>fuzzy_match_any\<close>\<close>

text \<open>
  A cell holds a string or is missing (\<open>None\<close> is NaN).  \<open>norm_name\<close> lowers and strips
  the text, keeps alphanumeric characters, turns every whitespace character into a
  space, drops the rest, and joins the whitespace-separated words with single spaces.
\<close>

fun join_space :: "string list \<Rightarrow> string" where
  "join_space [] = []"
| "join_space [w] = w"
| "join_space (w # v # ws) = w @ '' '' @ join_space (v # ws)"

definition keep_chars :: "string \<Rightarrow> string" where
  "keep_chars s =
     concat (map (\<lambda>ch. if py_isalnum ch then [ch] else if py_isspace ch then '' '' else []) s)"

definition norm_name :: "string option \<Rightarrow> string" where
  "norm_name x =
     (case x of None \<Rightarrow> []
      | Some s \<Rightarrow> join_space (py_split (keep_chars (py_strip (py_lower s)))))"

text \<open>
  \<open>fuzzy_match_any(name, targets_norm, ratio_cut=0.85)\<close>; \<open>match_loop\<close> is its
  \<open>for t in targets_norm\<close> loop.  The comparison with the cut is made on exact
  numbers; the binary64 value of \<open>0.85\<close> and the rounded quotient agree with it for all
  strings shorter than 10^14 characters.
\<close>

definition ratio_cut :: real where
  "ratio_cut = 85 / 100"

fun match_loop :: "string \<Rightarrow> string list \<Rightarrow> bool" where
  "match_loop n [] = False"
| "match_loop n (t # ts) =
     (if t = [] then match_loop n ts
      else if py_in t n \<or> py_in n t then True
      else if list_ex (\<lambda>tok. tok \<noteq> [] \<and> py_in tok n) (py_split t) then True
      else if ratio_cut \<le> ratio n t then True
      else match_loop n ts)"

definition fuzzy_match_any :: "string option \<Rightarrow> string list \<Rightarrow> bool" where
  "fuzzy_match_any name targets_norm =
     (let n = norm_name name in if n = [] then False else match_loop n targets_norm)"

text \<open>The two fixed rosters, normalised once when the program starts.\<close>

definition B2C_TARGETS_RAW :: "string list" where
  "B2C_TARGETS_RAW =
     [''Kamaldeep singh'', ''Ria Arora'', ''ayushman jetlearn'', ''Shujaat Shafqat'',
      ''Unmesh Kamble'', ''Ziyaulhaq Badr'', ''Visakha'', ''Jay Nayak'', ''Ankush Kumar'',
      ''Fuzail Saudagar'', ''Aniket Srivastava'', ''Shahbaz Ali'', ''Vikas Jha'']"

definition MTTEAM_TARGETS_RAW :: "string list" where
  "MTTEAM_TARGETS_RAW = [''AYUSHMAN'']"

definition B2C_TARGETS :: "string list" where
  "B2C_TARGETS = map (\<lambda>x. norm_name (Some x)) B2C_TARGETS_RAW"

definition MTTEAM_TARGETS :: "string list" where
  "MTTEAM_TARGETS = map (\<lambda>x. norm_name (Some x)) MTTEAM_TARGETS_RAW"

text \<open>
  The membership test as the specification words it (NameMatcher, section 4.4), on a
  roster of normalised entries: some entry contains the name or is contained in it, or
  some whitespace-delimited token of the entry is a token of the name, or the similarity
  ratio reaches the cut; a name whose normal form is empty matches nothing.
\<close>

definition NameMatcher_is_member :: "string option \<Rightarrow> string list \<Rightarrow> bool" where
  "NameMatcher_is_member name roster =
     (let n = norm_name name
      in n \<noteq> [] \<and>
         list_ex (\<lambda>t. py_in t n \<or> py_in n t \<or>
                      list_ex (\<lambda>tok. tok \<in> set (py_split n)) (py_split t) \<or>
                      ratio_cut \<le> ratio n t) roster)"

section \<open>Column resolution\<close>

text \<open>
  \<open>_coalesce_column(df, candidates)\<close> of \<^verbatim>\<open>app_talktime.py\<close>; \<open>df.columns\<close> is the list
  of header names.  The first loop returns the first candidate that is a header.  The
  second builds the dictionary \<open>{c.lower(): c for c in df.columns}\<close>, in which a later
  header replaces an earlier one with the same lower-case form, and returns the header
  stored for the first candidate whose lower-case form is a key.
\<close>

fun exact_pass :: "string list \<Rightarrow> string list \<Rightarrow> string option" where
  "exact_pass columns [] = None"
| "exact_pass columns (c # cs) =
     (if c \<in> set columns then Some c else exact_pass columns cs)"

definition lower_dict :: "string list \<Rightarrow> (string \<rightharpoonup> string)" where
  "lower_dict columns = foldl (\<lambda>d c. d(py_lower c \<mapsto> c)) Map.empty columns"

fun lower_pass :: "(string \<rightharpoonup> string) \<Rightarrow> string list \<Rightarrow> string option" where
  "lower_pass lower [] = None"
| "lower_pass lower (c # cs) =
     (case lower (py_lower c) of Some col \<Rightarrow> Some col | None \<Rightarrow> lower_pass lower cs)"

definition coalesce_column :: "string list \<Rightarrow> string list \<Rightarrow> string option" where
  "coalesce_column columns candidates =
     (case exact_pass columns candidates of
        Some c \<Rightarrow> Some c
      | None \<Rightarrow> lower_pass (lower_dict columns) candidates)"

text \<open>
  A role is resolved as \<open>map_agent or _coalesce_column(df, [...])\<close>: the text typed into
  the mapping field when it is not empty, whatever the headers are, and the alias search
  otherwise.  \<open>None\<close> is the unresolved role.
\<close>

definition resolve_role :: "string \<Rightarrow> string list \<Rightarrow> string list \<Rightarrow> string option" where
  "resolve_role override columns candidates =
     (if override \<noteq> [] then Some override else coalesce_column columns candidates)"

definition agent_aliases :: "string list" where
  "agent_aliases =
     [''Owner'', ''Agent'', ''User'', ''Student/Academic Counsellor'',
      ''Student/Academic Counselor'', ''Assigned To'', ''Rep'', ''Agent Name'']"

definition country_aliases :: "string list" where
  "country_aliases = [''Country'', ''Country/Region'', ''Country Name'']"

definition duration_aliases :: "string list" where
  "duration_aliases =
     [''Call Duration'', ''Duration'', ''Talk Time'', ''CallDuration'', ''Call_Duration'']"

definition start_aliases :: "string list" where
  "start_aliases =
     [''Start Time'', ''Call Start Time'', ''Created At'', ''Timestamp'', ''Call Start'',
      ''Started At'', ''Date/Time'', ''Datetime'']"

record schema =
  agent_col :: "string option"
  country_col :: "string option"
  duration_col :: "string option"
  start_col :: "string option"

definition resolve_schema ::
  "string \<Rightarrow> string \<Rightarrow> string \<Rightarrow> string \<Rightarrow> string list \<Rightarrow> schema" where
  "resolve_schema map_agent map_country map_duration map_start columns =
     \<lparr> agent_col = resolve_role map_agent columns agent_aliases,
       country_col = resolve_role map_country columns country_aliases,
       duration_col = resolve_role map_duration columns duration_aliases,
       start_col = resolve_role map_start columns start_aliases \<rparr>"

text \<open>
  The resolver as the specification words it (ColumnResolver, section 4.3): an override
  that is supplied and is a header is used; otherwise the first alias that is a header;
  otherwise the first alias that equals a header when letter case is ignored, which
  resolves to that header (the last such header, should several qualify); otherwise the
  role is unresolved.
\<close>

definition ColumnResolver_resolve ::
  "string \<Rightarrow> string list \<Rightarrow> string list \<Rightarrow> string option" where
  "ColumnResolver_resolve override header aliases =
     (if override \<noteq> [] \<and> override \<in> set header then Some override
      else (case find (\<lambda>a. a \<in> set header) aliases of
              Some a \<Rightarrow> Some a
            | None \<Rightarrow>
                (case find (\<lambda>a. py_lower a \<in> py_lower ` set header) aliases of
                   Some a \<Rightarrow> Some (last (filter (\<lambda>h. py_lower h = py_lower a) header))
                 | None \<Rightarrow> None)))"

section \<open>The data frame of \<^verbatim>\<open>app_talktime_v3_6.py\<close>\<close>

text \<open>
  A row of the uploaded table with its derived columns.  A text cell is a string or is
  missing (\<open>None\<close> is NaN).  \<open>duration_sec\<close> is the column \<open>_duration_sec\<close>.  The columns
  \<open>_date_only\<close> and \<open>_hour\<close> come out of the date and time parsing of pandas and are
  taken as given; a date is a triple of year, month and day.  A frame is the list of its
  column names and the list of its rows.
\<close>

type_synonym date = "int \<times> int \<times> int"

record row =
  Caller :: "string option"
  Country_Name :: "string option"
  Call_Type :: "string option"
  Call_Status :: "string option"
  Call_Duration :: pyval
  duration_sec :: pyfloat
  date_only :: "date option"
  hour :: "nat option"

record frame =
  columns :: "string list"
  rows :: "row list"

definition cell :: "string \<Rightarrow> row \<Rightarrow> string option" where
  "cell col r =
     (if col = ''Caller'' then Caller r
      else if col = ''Country Name'' then Country_Name r
      else if col = ''Call Type'' then Call_Type r
      else if col = ''Call Status'' then Call_Status r
      else None)"

text \<open>\<open>series.astype(str)\<close> turns a missing cell into the text \<open>nan\<close>.\<close>

definition astype_str :: "string option \<Rightarrow> string" where
  "astype_str v = (case v of None \<Rightarrow> ''nan'' | Some s \<Rightarrow> s)"

text \<open>
  Load and prepare: \<open>clean_str_col\<close> strips the text cells of the four key columns,
  and \<open>_duration_sec\<close> is \<open>to_seconds\<close> of \<open>Call Duration\<close> (NaN when the file has no
  such column).
\<close>

definition clean_str_col :: "string option \<Rightarrow> string option" where
  "clean_str_col v = map_option py_strip v"

definition prepare_row :: "string list \<Rightarrow> row \<Rightarrow> row" where
  "prepare_row cols r =
     r \<lparr> Caller := (if ''Caller'' \<in> set cols then clean_str_col (Caller r) else Caller r),
         Country_Name := (if ''Country Name'' \<in> set cols then clean_str_col (Country_Name r)
                          else Country_Name r),
         Call_Type := (if ''Call Type'' \<in> set cols then clean_str_col (Call_Type r)
                       else Call_Type r),
         Call_Status := (if ''Call Status'' \<in> set cols then clean_str_col (Call_Status r)
                         else Call_Status r),
         duration_sec := (if ''Call Duration'' \<in> set cols then to_seconds (Call_Duration r)
                          else NaN) \<rparr>"

definition prepare :: "frame \<Rightarrow> frame" where
  "prepare df =
     \<lparr> columns = columns df @ [''_duration_sec'', ''_date_only'', ''_dt_local'', ''_hour''],
       rows = map (prepare_row (columns df)) (rows df) \<rparr>"

subsection \<open>The sidebar settings\<close>

datatype team_mode = All_agents | B2C_team_only

datatype calls_mode = All_calls | Only_calls_threshold

record config =
  team_mode :: team_mode
  add_mt :: bool
  mode :: calls_mode
  threshold :: int
  bounds :: "(date \<times> date) option"
  include_missing :: bool
  sel_agents :: "string list option"
  sel_countries :: "string list option"
  sel_types :: "string list option"
  sel_status :: "string list option"

subsection \<open>Date filter\<close>

definition date_le :: "date \<Rightarrow> date \<Rightarrow> bool" where
  "date_le d e =
     (case (d, e) of ((y1, m1, d1), (y2, m2, d2)) \<Rightarrow>
        y1 < y2 \<or> (y1 = y2 \<and> (m1 < m2 \<or> (m1 = m2 \<and> d1 \<le> d2))))"

text \<open>A comparison with a missing date (NaT) is false.\<close>

definition filter_by_date :: "frame \<Rightarrow> date \<Rightarrow> date \<Rightarrow> frame" where
  "filter_by_date df start_date end_date =
     (if ''_date_only'' \<notin> set (columns df) then df \<lparr> rows := [] \<rparr>
      else df \<lparr> rows := filter (\<lambda>r. case date_only r of None \<Rightarrow> False
                                       | Some d \<Rightarrow> date_le start_date d \<and> date_le d end_date)
                             (rows df) \<rparr>)"

definition date_stage :: "config \<Rightarrow> frame \<Rightarrow> frame" where
  "date_stage cfg df =
     (case bounds cfg of
        Some (start_date, end_date) \<Rightarrow> filter_by_date df start_date end_date
      | None \<Rightarrow> df)"

subsection \<open>Team masks\<close>

text \<open>
  A mask is a truth value for each row.  \<open>team_mask\<close> is the mask built from the base
  selection, the additive MT checkbox and the include-missing setting; the frame keeps
  the rows where it is true.
\<close>

definition mask_for_targets :: "frame \<Rightarrow> string \<Rightarrow> string list \<Rightarrow> row \<Rightarrow> bool" where
  "mask_for_targets frm col targets_norm r =
     (if col \<notin> set (columns frm) then False
      else fuzzy_match_any (cell col r) targets_norm)"

definition team_mask :: "config \<Rightarrow> frame \<Rightarrow> row \<Rightarrow> bool" where
  "team_mask cfg df_f r =
     (let b2c_mask = mask_for_targets df_f ''Caller'' B2C_TARGETS r;
          mt_mask = mask_for_targets df_f ''Caller'' MTTEAM_TARGETS r;
          m0 = (if team_mode cfg = B2C_team_only then b2c_mask else True);
          m1 = (if add_mt cfg then m0 \<or> mt_mask else m0)
      in if include_missing cfg \<and> ''Caller'' \<in> set (columns df_f)
         then m1 \<or> Caller r = None else m1)"

definition team_stage :: "config \<Rightarrow> frame \<Rightarrow> frame" where
  "team_stage cfg df_f = df_f \<lparr> rows := filter (team_mask cfg df_f) (rows df_f) \<rparr>"

subsection \<open>Generic filters\<close>

text \<open>
  \<open>_apply_filter(frame, col, selections)\<close>; \<open>include_missing\<close> is the global setting
  that the source function reads.
\<close>

definition apply_filter :: "bool \<Rightarrow> frame \<Rightarrow> string \<Rightarrow> string list option \<Rightarrow> frame" where
  "apply_filter incl_missing frm col selections =
     (case selections of
        None \<Rightarrow> frm
      | Some sel \<Rightarrow>
          if col \<notin> set (columns frm) then frm
          else if length sel = 0 then frm
          else if incl_missing
          then frm \<lparr> rows := filter (\<lambda>r. astype_str (cell col r) \<in> set sel \<or> cell col r = None)
                                   (rows frm) \<rparr>
          else frm \<lparr> rows := filter (\<lambda>r. astype_str (cell col r) \<in> set sel) (rows frm) \<rparr>)"

definition categorical_stage :: "config \<Rightarrow> frame \<Rightarrow> frame" where
  "categorical_stage cfg df_f =
     (let im = include_missing cfg;
          f1 = apply_filter im df_f ''Caller'' (sel_agents cfg);
          f2 = apply_filter im f1 ''Country Name'' (sel_countries cfg);
          f3 = apply_filter im f2 ''Call Type'' (sel_types cfg)
      in apply_filter im f3 ''Call Status'' (sel_status cfg))"

text \<open>
  The filter of \<^verbatim>\<open>app_talktime_v2.py\<close> (and of v3), written inline there for each of
  the four columns: \<open>if sel is not None and len(sel) > 0: df_f = df_f[...isin(sel)]\<close>.
\<close>

definition v2_filter :: "frame \<Rightarrow> string \<Rightarrow> string list option \<Rightarrow> frame" where
  "v2_filter frm col selections =
     (case selections of
        None \<Rightarrow> frm
      | Some sel \<Rightarrow>
          if 0 < length sel
          then frm \<lparr> rows := filter (\<lambda>r. astype_str (cell col r) \<in> set sel) (rows frm) \<rparr>
          else frm)"

text \<open>\<open>df_f\<close>: the date filter, the team mask and the four generic filters, in this order.\<close>

definition df_f :: "config \<Rightarrow> frame \<Rightarrow> frame" where
  "df_f cfg df = categorical_stage cfg (team_stage cfg (date_stage cfg df))"

subsection \<open>Mode filter\<close>

text \<open>\<open>x >= y\<close> on floats: false when either side is NaN.\<close>

fun pf_ge :: "pyfloat \<Rightarrow> pyfloat \<Rightarrow> bool" where
  "pf_ge NaN y = False"
| "pf_ge x NaN = False"
| "pf_ge (Fin a) (Fin b) = (b \<le> a)"
| "pf_ge PInf y = True"
| "pf_ge x NInf = True"
| "pf_ge x y = False"

definition df_view :: "config \<Rightarrow> frame \<Rightarrow> frame" where
  "df_view cfg df =
     (let f = df_f cfg df
      in if mode cfg = Only_calls_threshold
         then f \<lparr> rows := filter (\<lambda>r. pf_ge (duration_sec r) (Fin (real_of_int (threshold cfg))))
                                 (rows f) \<rparr>
         else f)"

section \<open>Aggregation\<close>

text \<open>
  \<open>agg_summary(df, dims, duration_field)\<close>: \<open>groupby(dims, dropna=False)\<close> followed by
  \<open>agg(["count", "sum", "mean", "median"])\<close> and a sort.  A group key is the tuple of
  the cells of the grouping columns, missing cells included.  The groups come in the
  order of their keys, a missing cell after every text.  Within a group pandas
  \<open>count\<close> is the number of values that are not NaN, \<open>sum\<close> adds the values that are
  not NaN (0 when there is none), and \<open>mean\<close> and \<open>median\<close> are taken over the values
  that are not NaN (NaN when there is none).
\<close>

definition group_key :: "string list \<Rightarrow> row \<Rightarrow> string option list" where
  "group_key dims r = map (\<lambda>d. cell d r) dims"

definition na_last :: "string option \<Rightarrow> nat \<times> string" where
  "na_last v = (case v of Some s \<Rightarrow> (0, s) | None \<Rightarrow> (1, []))"

definition group_keys :: "frame \<Rightarrow> string list \<Rightarrow> string option list list" where
  "group_keys df dims = sort_key (map na_last) (remdups (map (group_key dims) (rows df)))"

definition group_values :: "frame \<Rightarrow> string list \<Rightarrow> string option list \<Rightarrow> pyfloat list" where
  "group_values df dims k =
     map duration_sec (filter (\<lambda>r. group_key dims r = k) (rows df))"

definition notna :: "pyfloat list \<Rightarrow> pyfloat list" where
  "notna vs = filter (\<lambda>v. \<not> isnan v) vs"

definition agg_count :: "pyfloat list \<Rightarrow> nat" where
  "agg_count vs = length (notna vs)"

definition agg_sum :: "pyfloat list \<Rightarrow> pyfloat" where
  "agg_sum vs = foldl pf_add (Fin 0) (notna vs)"

fun pf_div_nat :: "pyfloat \<Rightarrow> nat \<Rightarrow> pyfloat" where
  "pf_div_nat (Fin a) n = Fin (a / real n)"
| "pf_div_nat x n = x"

definition agg_mean :: "pyfloat list \<Rightarrow> pyfloat" where
  "agg_mean vs = (if notna vs = [] then NaN else pf_div_nat (agg_sum vs) (agg_count vs))"

text \<open>The order of the values that are not NaN, as a key into a linear order.\<close>

definition pf_rank :: "pyfloat \<Rightarrow> nat \<times> real" where
  "pf_rank v = (case v of NInf \<Rightarrow> (0, 0) | Fin r \<Rightarrow> (1, r) | PInf \<Rightarrow> (2, 0) | NaN \<Rightarrow> (3, 0))"

definition agg_median :: "pyfloat list \<Rightarrow> pyfloat" where
  "agg_median vs =
     (let s = sort_key pf_rank (notna vs); n = length s
      in if n = 0 then NaN
         else if odd n then s ! (n div 2)
         else pf_div_nat (pf_add (s ! (n div 2 - 1)) (s ! (n div 2))) 2)"

record agg_row =
  key :: "string option list"
  Total_Calls :: nat
  Total_Duration :: pyfloat
  Avg_Duration :: pyfloat
  Median_Duration :: pyfloat

definition agg_group :: "frame \<Rightarrow> string list \<Rightarrow> string option list \<Rightarrow> agg_row" where
  "agg_group df dims k =
     (let vs = group_values df dims k
      in \<lparr> key = k, Total_Calls = agg_count vs, Total_Duration = agg_sum vs,
           Avg_Duration = agg_mean vs, Median_Duration = agg_median vs \<rparr>)"

text \<open>
  \<open>sort_values(["Total Calls", "Total Duration (sec)"], ascending=[False, False])\<close>:
  a stable sort, larger counts first, then larger sums first, a NaN sum last.
\<close>

definition desc_rank :: "pyfloat \<Rightarrow> nat \<times> real" where
  "desc_rank v = (case v of PInf \<Rightarrow> (0, 0) | Fin r \<Rightarrow> (1, - r) | NInf \<Rightarrow> (2, 0) | NaN \<Rightarrow> (3, 0))"

definition agg_summary :: "frame \<Rightarrow> string list \<Rightarrow> agg_row list" where
  "agg_summary df dims =
     sort_key (\<lambda>g. (- int (Total_Calls g), desc_rank (Total_Duration g)))
       (map (agg_group df dims) (group_keys df dims))"

text \<open>
  The overview figure \<open>Total Calls\<close> is \<open>len(df_view)\<close>; the first three tabs show
  \<open>agg_summary\<close> of \<open>df_view\<close> when their columns are there.
\<close>

definition kpi_total_calls :: "config \<Rightarrow> frame \<Rightarrow> nat" where
  "kpi_total_calls cfg df = length (rows (df_view cfg df))"

definition tab_agent :: "config \<Rightarrow> frame \<Rightarrow> agg_row list option" where
  "tab_agent cfg df =
     (let v = df_view cfg df
      in if ''Caller'' \<in> set (columns v) then Some (agg_summary v [''Caller'']) else None)"

definition tab_country :: "config \<Rightarrow> frame \<Rightarrow> agg_row list option" where
  "tab_country cfg df =
     (let v = df_view cfg df
      in if ''Country Name'' \<in> set (columns v) then Some (agg_summary v [''Country Name''])
         else None)"

definition tab_agent_country :: "config \<Rightarrow> frame \<Rightarrow> agg_row list option" where
  "tab_agent_country cfg df =
     (let v = df_view cfg df
      in if ''Caller'' \<in> set (columns v) \<and> ''Country Name'' \<in> set (columns v)
         then Some (agg_summary v [''Caller'', ''Country Name'']) else None)"



section \<open>Concrete inputs\<close>

text \<open>
  The end-to-end scenario of the specification: three calls on 2024-01-01, of agent A to
  IN lasting \<open>1:00\<close> and \<open>0:30\<close> and of agent B to US lasting \<open>2:00\<close>, read with the
  threshold of 60 seconds in threshold mode and everything selected.  Each call is given
  the hour 10, so that the attempts view has calls to count.
\<close>

definition call :: "string option \<Rightarrow> string \<Rightarrow> string \<Rightarrow> row" where
  "call a c d =
     \<lparr> Caller = a, Country_Name = Some c, Call_Type = None, Call_Status = None,
       Call_Duration = PyStr d, duration_sec = NaN, date_only = Some (2024, 1, 1),
       hour = Some 10 \<rparr>"



text \<open>
  Two calls of agent A, one of them with a duration that does not parse, read in the
  mode that includes all calls.
\<close>

definition unparsed_call :: frame where
  "unparsed_call =
     \<lparr> columns = [''Date'', ''Time'', ''Caller'', ''Country Name'', ''Call Duration''],
       rows = [call (Some ''A'') ''IN'' ''abc'', call (Some ''A'') ''IN'' ''1:00''] \<rparr>"

definition all_calls :: config where
  "all_calls =
     \<lparr> team_mode = All_agents, add_mt = False, mode = All_calls, threshold = 60,
       bounds = None, include_missing = True,
       sel_agents = Some [''A''], sel_countries = Some [''IN''],
       sel_types = None, sel_status = None \<rparr>"

text \<open>
  Three calls for the agent filters: one with no agent, one of Ria Arora, who is on the
  B2C roster, and one of Bob.
\<close>

definition agent_calls :: frame where
  "agent_calls =
     \<lparr> columns = [''Date'', ''Time'', ''Caller'', ''Country Name'', ''Call Duration''],
       rows = [call None ''IN'' ''1:00'', call (Some ''Ria Arora'') ''IN'' ''1:00'',
               call (Some ''Bob'') ''IN'' ''1:00''] \<rparr>"

section \<open>Date parsing\<close>






section \<open>Verified properties\<close>

subsection \<open>Duration parsing\<close>











subsection \<open>Name matching\<close>

lemma ws_split_nonempty: "[] \<notin> set (ws_split cur s)"
  by (induction s arbitrary: cur) auto

lemma py_split_nonempty: "tok \<in> set (py_split s) \<Longrightarrow> tok \<noteq> []"
  using ws_split_nonempty [of "[]" s] by (auto simp: py_split_def)

lemma match_loop_iff:
  "match_loop n ts \<longleftrightarrow>
     (\<exists>t\<in>set ts. t \<noteq> [] \<and>
        (py_in t n \<or> py_in n t \<or> (\<exists>tok\<in>set (py_split t). py_in tok n) \<or>
         ratio_cut \<le> ratio n t))"
proof (induction ts)
  case Nil
  show ?case by simp
next
  case (Cons t ts)
  have tok: "list_ex (\<lambda>tok. tok \<noteq> [] \<and> py_in tok n) (py_split t)
             \<longleftrightarrow> (\<exists>tok\<in>set (py_split t). py_in tok n)"
    using py_split_nonempty by (auto simp: list_ex_iff)
  show ?case
    unfolding match_loop.simps tok Cons.IH by auto
qed

lemma norm_maria: "norm_name (Some ''Maria'') = ''maria''" by code_simp
lemma norm_aj: "norm_name (Some ''Ayushman Jetlearn'') = ''ayushman jetlearn''" by code_simp
lemma norm_aj2: "norm_name (Some ''Ayushman J'') = ''ayushman j''" by code_simp
lemma norm_empty: "norm_name (Some '''') = []" by code_simp
lemma norm_a: "norm_name (Some ''a'') = ''a''" by code_simp

lemma flm_maria: "find_longest_match ''maria'' ''ria arora'' 0 5 0 9 = (2, 0, 3)"
  by (simp add: find_longest_match_def longest_junk_free_def outer_step_def inner_step_def
      j2len_get_def b2j_def popular_def extend_left.simps extend_right.simps upt_rec Let_def)

lemma ratio_maria: "ratio ''maria'' ''ria arora'' = 3 / 7"
proof -
  have m: "matches ''maria'' ''ria arora'' 0 5 0 9 = 3"
    by (subst matches.simps) (simp add: flm_maria)
  have l1: "length ''maria'' = 5" and l2: "length ''ria arora'' = 9" by simp_all
  show ?thesis unfolding ratio_def Let_def l1 l2 m by simp
qed

lemma split_ria: "py_split ''ria arora'' = [''ria'', ''arora'']" by code_simp
lemma split_maria: "py_split ''maria'' = [''maria'']" by code_simp

text \<open>
  C4 as stated fails in two places.  The token test of the source is a substring test
  on the name: the roster token \<open>ria\<close> occurs inside \<open>maria\<close>, so \<open>Maria\<close> matches the
  entry \<open>ria arora\<close>, although no token of the entry is a token of the name, neither
  string contains the other and the ratio is 3/7.  And the source skips an empty roster
  entry, which the stated rule would find inside every name.
\<close>

theorem C4_counterexample:
  "fuzzy_match_any (Some ''Maria'') [''ria arora'']
   \<and> \<not> NameMatcher_is_member (Some ''Maria'') [''ria arora'']
   \<and> \<not> fuzzy_match_any (Some ''a'') ['''']
   \<and> NameMatcher_is_member (Some ''a'') ['''']"
proof -
  have in1: "\<not> py_in ''ria arora'' ''maria''" by code_simp
  have in2: "\<not> py_in ''maria'' ''ria arora''" by code_simp
  have in3: "py_in ''ria'' ''maria''" by code_simp
  have a: "fuzzy_match_any (Some ''Maria'') [''ria arora'']"
    using in3 by (simp add: fuzzy_match_any_def norm_maria split_ria)
  have b: "\<not> NameMatcher_is_member (Some ''Maria'') [''ria arora'']"
    using in1 in2
    by (simp add: NameMatcher_is_member_def norm_maria split_ria split_maria ratio_maria
        ratio_cut_def)
  have c: "\<not> fuzzy_match_any (Some ''a'') ['''']"
    by (simp add: fuzzy_match_any_def norm_a)
  have d: "NameMatcher_is_member (Some ''a'') ['''']"
    by (simp add: NameMatcher_is_member_def norm_a)
  from a b c d show ?thesis by simp
qed

text \<open>
  C4, as the code has it.  A name matches a roster of normalised entries iff its normal
  form is not empty and some non-empty entry contains it, or is contained in it, or has
  a whitespace-delimited token that occurs in the name as a substring, or has a
  similarity ratio of at least 0.85 with it.  A name with an empty normal form matches
  no roster, and the examples of the specification hold.
\<close>

theorem C4_fuzzy_match_any:
  "(fuzzy_match_any name targets \<longleftrightarrow>
      norm_name name \<noteq> [] \<and>
      (\<exists>t\<in>set targets. t \<noteq> [] \<and>
         (py_in t (norm_name name) \<or> py_in (norm_name name) t \<or>
          (\<exists>tok\<in>set (py_split t). py_in tok (norm_name name)) \<or>
          ratio_cut \<le> ratio (norm_name name) t)))
   \<and> (norm_name name = [] \<longrightarrow> \<not> fuzzy_match_any name targets)
   \<and> fuzzy_match_any (Some ''Ayushman Jetlearn'') [''ayushman jetlearn'']
   \<and> fuzzy_match_any (Some ''Ayushman J'') [''ayushman jetlearn'']
   \<and> \<not> fuzzy_match_any (Some '''') targets
   \<and> \<not> fuzzy_match_any None targets"
proof -
  have e1: "fuzzy_match_any (Some ''Ayushman Jetlearn'') [''ayushman jetlearn'']"
  proof -
    have "py_in ''ayushman jetlearn'' ''ayushman jetlearn''" by code_simp
    then show ?thesis by (simp add: fuzzy_match_any_def norm_aj)
  qed
  have e2: "fuzzy_match_any (Some ''Ayushman J'') [''ayushman jetlearn'']"
  proof -
    have "py_in ''ayushman j'' ''ayushman jetlearn''" by code_simp
    then show ?thesis by (simp add: fuzzy_match_any_def norm_aj2)
  qed
  have e3: "\<not> fuzzy_match_any (Some '''') targets"
    by (simp add: fuzzy_match_any_def norm_empty)
  have e4: "\<not> fuzzy_match_any None targets"
    by (simp add: fuzzy_match_any_def norm_name_def)
  have g1: "fuzzy_match_any name targets \<longleftrightarrow>
      norm_name name \<noteq> [] \<and>
      (\<exists>t\<in>set targets. t \<noteq> [] \<and>
         (py_in t (norm_name name) \<or> py_in (norm_name name) t \<or>
          (\<exists>tok\<in>set (py_split t). py_in tok (norm_name name)) \<or>
          ratio_cut \<le> ratio (norm_name name) t))"
    by (simp add: fuzzy_match_any_def Let_def match_loop_iff)
  have g2: "norm_name name = [] \<longrightarrow> \<not> fuzzy_match_any name targets"
    by (simp add: fuzzy_match_any_def)
  show ?thesis
    by (intro conjI) (rule g1 g2 e1 e2 e3 e4)+
qed

theorem C4_fuzzy_match_any_witness:
  "norm_name (Some ''Maria'') \<noteq> []
   \<and> (\<exists>t\<in>set [''ria arora'']. t \<noteq> [] \<and> (\<exists>tok\<in>set (py_split t). py_in tok ''maria''))
   \<and> fuzzy_match_any (Some ''Maria'') [''ria arora'']
   \<and> norm_name None = []
   \<and> \<not> fuzzy_match_any None [''ria arora'']"
proof -
  have in3: "py_in ''ria'' ''maria''" by code_simp
  have n: "norm_name None = []" by (simp add: norm_name_def)
  show ?thesis
    using C4_fuzzy_match_any [of "Some ''Maria''" "[''ria arora'']"]
      C4_fuzzy_match_any [of None "[''ria arora'']"] in3 n
    by (simp add: norm_maria split_ria)
qed
subsection \<open>Column resolution\<close>

lemma exact_pass_find: "exact_pass hdr cands = find (\<lambda>a. a \<in> set hdr) cands"
  by (induction cands) auto

lemma lower_dict_lookup:
  "lower_dict hdr k =
     (if k \<in> py_lower ` set hdr
      then Some (last (filter (\<lambda>h. py_lower h = k) hdr)) else None)"
  unfolding lower_dict_def
  by (induction hdr rule: rev_induct) auto

lemma lower_pass_find:
  "lower_pass (lower_dict hdr) cands =
     (case find (\<lambda>a. py_lower a \<in> py_lower ` set hdr) cands of
        Some a \<Rightarrow> Some (last (filter (\<lambda>h. py_lower h = py_lower a) hdr))
      | None \<Rightarrow> None)"
  by (induction cands) (auto simp: lower_dict_lookup)

lemma coalesce_column_spec:
  "coalesce_column hdr cands = ColumnResolver_resolve [] hdr cands"
  by (simp add: coalesce_column_def ColumnResolver_resolve_def exact_pass_find
      lower_pass_find split: option.splits)

text \<open>
  C7, as the code has it.  An override that is supplied is used as it is, also when it
  is no header (the only case where the source departs from the stated rule); with no
  override, or with an override that is a header, the source is the resolver of the
  specification: aliases in order, exact match first, then ignoring letter case, else
  unresolved.
\<close>

theorem C7_column_resolver:
  "resolve_role override header aliases =
     (if override \<noteq> [] \<and> override \<notin> set header then Some override
      else ColumnResolver_resolve override header aliases)
   \<and> resolve_role [] header aliases = ColumnResolver_resolve [] header aliases
   \<and> resolve_role [] [''agent name'', ''COUNTRY''] agent_aliases = Some ''agent name''
   \<and> resolve_role [] [''agent name'', ''COUNTRY''] country_aliases = Some ''COUNTRY''
   \<and> resolve_role [] [''agent name'', ''COUNTRY''] duration_aliases = None"
proof -
  have g: "resolve_role override header aliases =
     (if override \<noteq> [] \<and> override \<notin> set header then Some override
      else ColumnResolver_resolve override header aliases)"
    by (simp add: resolve_role_def coalesce_column_spec ColumnResolver_resolve_def)
  have g0: "resolve_role [] header aliases = ColumnResolver_resolve [] header aliases"
    by (simp add: resolve_role_def coalesce_column_spec)
  have e1: "resolve_role [] [''agent name'', ''COUNTRY''] agent_aliases = Some ''agent name''"
    by code_simp
  have e2: "resolve_role [] [''agent name'', ''COUNTRY''] country_aliases = Some ''COUNTRY''"
    by code_simp
  have e3: "resolve_role [] [''agent name'', ''COUNTRY''] duration_aliases = None"
    by code_simp
  show ?thesis by (intro conjI) (rule g g0 e1 e2 e3)+
qed

text \<open>
  C7 as stated fails: with the headers \<open>[Agent]\<close> and the override \<open>Foo\<close>, which is no
  header, the stated rule resolves the agent role to the alias \<open>Agent\<close>; the source
  resolves it to \<open>Foo\<close>.
\<close>

theorem C7_override_counterexample:
  "resolve_role ''Foo'' [''Agent''] agent_aliases = Some ''Foo''
   \<and> ColumnResolver_resolve ''Foo'' [''Agent''] agent_aliases = Some ''Agent''"
  by (simp add: resolve_role_def ColumnResolver_resolve_def agent_aliases_def)

subsection \<open>Filters and views\<close>

lemma columns_apply_filter [simp]: "columns (apply_filter im f col sel) = columns f"
  by (simp add: apply_filter_def split: option.splits)

lemma columns_team_stage [simp]: "columns (team_stage cfg f) = columns f"
  by (simp add: team_stage_def)

lemma columns_date_stage [simp]: "columns (date_stage cfg f) = columns f"
  by (simp add: date_stage_def filter_by_date_def split: option.splits prod.splits)

lemma columns_categorical_stage [simp]: "columns (categorical_stage cfg f) = columns f"
  by (simp add: categorical_stage_def Let_def)

lemma columns_df_f [simp]: "columns (df_f cfg df) = columns df"
  by (simp add: df_f_def)

lemma team_mask_mode [simp]: "team_mask (cfg\<lparr>mode := m\<rparr>) f = team_mask cfg f"
  by (rule ext) (simp add: team_mask_def)

lemma team_mask_threshold [simp]: "team_mask (cfg\<lparr>threshold := t\<rparr>) f = team_mask cfg f"
  by (rule ext) (simp add: team_mask_def)

lemma df_f_mode [simp]: "df_f (cfg\<lparr>mode := m\<rparr>) df = df_f cfg df"
  by (simp add: df_f_def categorical_stage_def team_stage_def date_stage_def)

lemma df_f_threshold [simp]: "df_f (cfg\<lparr>threshold := t\<rparr>) df = df_f cfg df"
  by (simp add: df_f_def categorical_stage_def team_stage_def date_stage_def)





lemma df_view_all: "df_view (cfg\<lparr>mode := All_calls\<rparr>) df = df_f cfg df"
  by (simp add: df_view_def Let_def)



text \<open>
  C10.  An empty selection is no constraint: \<open>_apply_filter\<close> returns the frame
  unchanged for every column, so does the inline filter of v2, and with four empty
  selections the whole categorical stage is the identity.
\<close>

theorem C10_empty_selection:
  "apply_filter im frm col (Some []) = frm
   \<and> v2_filter frm col (Some []) = frm
   \<and> categorical_stage (cfg\<lparr> sel_agents := Some [], sel_countries := Some [],
                             sel_types := Some [], sel_status := Some [] \<rparr>) frm = frm"
  by (simp add: apply_filter_def v2_filter_def categorical_stage_def Let_def)

lemma team_stage_rows: "rows (team_stage cfg f) = filter (team_mask cfg f) (rows f)"
  by (simp add: team_stage_def)

text \<open>
  C8.  With the additive MT flag on, the team stage keeps exactly the rows it keeps with
  the flag off together with the rows that match the MT roster: the result with the
  flag is a superset, and filtering it by the mask without the flag gives back the
  result without the flag.  The base selection of all agents keeps every row.
\<close>

theorem C8_additive_flag:
  "set (rows (team_stage (cfg\<lparr>add_mt := False\<rparr>) f))
     \<subseteq> set (rows (team_stage (cfg\<lparr>add_mt := True\<rparr>) f))
   \<and> rows (team_stage (cfg\<lparr>add_mt := True\<rparr>) f) =
       filter (\<lambda>r. team_mask (cfg\<lparr>add_mt := False\<rparr>) f r \<or>
                   mask_for_targets f ''Caller'' MTTEAM_TARGETS r) (rows f)
   \<and> rows (team_stage (cfg\<lparr>add_mt := False\<rparr>) f) =
       filter (team_mask (cfg\<lparr>add_mt := False\<rparr>) f)
         (rows (team_stage (cfg\<lparr>add_mt := True\<rparr>) f))
   \<and> team_stage (cfg\<lparr>team_mode := All_agents\<rparr>) f = f"
proof -
  have m: "team_mask (cfg\<lparr>add_mt := True\<rparr>) f r \<longleftrightarrow>
             team_mask (cfg\<lparr>add_mt := False\<rparr>) f r \<or>
             mask_for_targets f ''Caller'' MTTEAM_TARGETS r" for r
    by (auto simp: team_mask_def Let_def)
  have mf: "team_mask (cfg\<lparr>add_mt := True\<rparr>) f =
              (\<lambda>r. team_mask (cfg\<lparr>add_mt := False\<rparr>) f r \<or>
                   mask_for_targets f ''Caller'' MTTEAM_TARGETS r)"
    by (rule ext) (rule m)
  have a: "set (rows (team_stage (cfg\<lparr>add_mt := False\<rparr>) f))
             \<subseteq> set (rows (team_stage (cfg\<lparr>add_mt := True\<rparr>) f))"
    by (auto simp: team_stage_rows mf)
  have b: "rows (team_stage (cfg\<lparr>add_mt := True\<rparr>) f) =
       filter (\<lambda>r. team_mask (cfg\<lparr>add_mt := False\<rparr>) f r \<or>
                   mask_for_targets f ''Caller'' MTTEAM_TARGETS r) (rows f)"
    by (simp add: team_stage_rows mf)
  have c: "rows (team_stage (cfg\<lparr>add_mt := False\<rparr>) f) =
       filter (team_mask (cfg\<lparr>add_mt := False\<rparr>) f)
         (rows (team_stage (cfg\<lparr>add_mt := True\<rparr>) f))"
    by (auto simp: team_stage_rows mf intro: filter_cong)
  have "team_mask (cfg\<lparr>team_mode := All_agents\<rparr>) f r" for r
    by (simp add: team_mask_def Let_def)
  then have d: "team_stage (cfg\<lparr>team_mode := All_agents\<rparr>) f = f"
    by (simp add: team_stage_def)
  show ?thesis by (intro conjI) (rule a b c d)+
qed

subsection \<open>Agent filters with include-missing\<close>

lemma apply_filter_missing_rows:
  assumes "col \<in> set (columns f)"
  shows "rows (apply_filter True f col (Some (s # sel))) =
           filter (\<lambda>r. cell col r = None \<or> astype_str (cell col r) \<in> set (s # sel)) (rows f)"
  using assms by (auto simp: apply_filter_def intro: filter_cong)

lemma team_mask_b2c_missing:
  assumes "''Caller'' \<in> set (columns f)"
  shows "team_mask (cfg\<lparr>team_mode := B2C_team_only, include_missing := True\<rparr>) f r \<longleftrightarrow>
           Caller r = None \<or> fuzzy_match_any (Caller r) B2C_TARGETS \<or>
           (add_mt cfg \<and> fuzzy_match_any (Caller r) MTTEAM_TARGETS)"
  using assms by (auto simp: team_mask_def mask_for_targets_def cell_def Let_def)

lemma team_mask_missing:
  assumes "''Caller'' \<in> set (columns f)" "Caller r = None"
  shows "team_mask (cfg\<lparr>include_missing := True\<rparr>) f r"
  using assms by (simp add: team_mask_def Let_def)

lemma agent_filters_compose:
  assumes "''Caller'' \<in> set (columns f)" "r \<in> set (rows f)" "Caller r = Some a"
  shows "r \<in> set (rows (apply_filter True
                          (team_stage (cfg\<lparr>include_missing := True\<rparr>) f) ''Caller''
                          (Some (s # sel)))) \<longleftrightarrow>
           a \<in> set (s # sel) \<and>
           (team_mode cfg = All_agents \<or> fuzzy_match_any (Some a) B2C_TARGETS \<or>
            (add_mt cfg \<and> fuzzy_match_any (Some a) MTTEAM_TARGETS))"
proof -
  have tm: "team_mask (cfg\<lparr>include_missing := True\<rparr>) f r \<longleftrightarrow>
              team_mode cfg = All_agents \<or> fuzzy_match_any (Some a) B2C_TARGETS \<or>
              (add_mt cfg \<and> fuzzy_match_any (Some a) MTTEAM_TARGETS)"
    using assms(1,3)
    by (cases "team_mode cfg")
       (auto simp: team_mask_def mask_for_targets_def cell_def Let_def)
  have "''Caller'' \<in> set (columns (team_stage (cfg\<lparr>include_missing := True\<rparr>) f))"
    using assms(1) by simp
  from apply_filter_missing_rows [OF this]
  show ?thesis
    using assms(2,3) tm by (auto simp: team_stage_rows cell_def astype_str_def)
qed

text \<open>
  C5.  With include-missing on, a row with no agent passes the agent filter, the team
  mask, and the two applied one after the other, whatever is selected.  A row with an
  agent passes the agent filter with a non-empty selection iff the agent is selected,
  and passes the restricted team mask iff the agent matches the B2C roster (or the MT
  roster when its flag is on); so a row whose agent is there but is neither selected
  nor on the roster is dropped.  When both restrictions are set, a row with an agent
  has to pass both (\<open>agent_filters_compose\<close>).
\<close>

theorem C5_include_missing_agent:
  assumes "''Caller'' \<in> set (columns f)" and "r \<in> set (rows f)"
  shows "(Caller r = None \<longrightarrow>
            r \<in> set (rows (apply_filter True f ''Caller'' (Some (s # sel)))) \<and>
            r \<in> set (rows (team_stage (cfg\<lparr>include_missing := True\<rparr>) f)) \<and>
            r \<in> set (rows (apply_filter True
                       (team_stage (cfg\<lparr>include_missing := True\<rparr>) f) ''Caller'' other)))
       \<and> (Caller r = Some a \<longrightarrow>
            (r \<in> set (rows (apply_filter True f ''Caller'' (Some (s # sel))))
               \<longleftrightarrow> a \<in> set (s # sel)) \<and>
            (r \<in> set (rows (team_stage
                       (cfg\<lparr>team_mode := B2C_team_only, include_missing := True\<rparr>) f))
               \<longleftrightarrow> fuzzy_match_any (Some a) B2C_TARGETS \<or>
                   (add_mt cfg \<and> fuzzy_match_any (Some a) MTTEAM_TARGETS)))"
proof (intro conjI impI)
  assume m: "Caller r = None"
  show "r \<in> set (rows (apply_filter True f ''Caller'' (Some (s # sel))))"
    using assms m by (simp add: apply_filter_missing_rows cell_def)
  show t: "r \<in> set (rows (team_stage (cfg\<lparr>include_missing := True\<rparr>) f))"
    using assms m by (simp add: team_stage_rows team_mask_missing)
  show "r \<in> set (rows (apply_filter True
                       (team_stage (cfg\<lparr>include_missing := True\<rparr>) f) ''Caller'' other))"
    using t m by (auto simp: apply_filter_def cell_def split: option.splits)
next
  assume p: "Caller r = Some a"
  show "r \<in> set (rows (apply_filter True f ''Caller'' (Some (s # sel))))
          \<longleftrightarrow> a \<in> set (s # sel)"
    using assms p by (simp add: apply_filter_missing_rows cell_def astype_str_def)
  show "r \<in> set (rows (team_stage
                       (cfg\<lparr>team_mode := B2C_team_only, include_missing := True\<rparr>) f))
          \<longleftrightarrow> fuzzy_match_any (Some a) B2C_TARGETS \<or>
              (add_mt cfg \<and> fuzzy_match_any (Some a) MTTEAM_TARGETS)"
    using assms p by (simp add: team_stage_rows team_mask_b2c_missing)
qed

lemma b2c_targets: "B2C_TARGETS =
     [''kamaldeep singh'', ''ria arora'', ''ayushman jetlearn'', ''shujaat shafqat'',
      ''unmesh kamble'', ''ziyaulhaq badr'', ''visakha'', ''jay nayak'', ''ankush kumar'',
      ''fuzail saudagar'', ''aniket srivastava'', ''shahbaz ali'', ''vikas jha'']"
  by code_simp

lemma ria_on_roster: "fuzzy_match_any (Some ''Ria Arora'') B2C_TARGETS"
proof -
  have n: "norm_name (Some ''Ria Arora'') = ''ria arora''" by code_simp
  have i: "py_in ''ria arora'' ''ria arora''" by code_simp
  have "match_loop ''ria arora'' B2C_TARGETS"
    unfolding match_loop_iff using i by (auto simp: b2c_targets)
  then show ?thesis by (simp add: fuzzy_match_any_def n)
qed

theorem C5_include_missing_agent_witness:
  "''Caller'' \<in> set (columns agent_calls)
   \<and> call None ''IN'' ''1:00'' \<in> set (rows agent_calls)
   \<and> call None ''IN'' ''1:00''
       \<in> set (rows (apply_filter True agent_calls ''Caller'' (Some [''Ria Arora''])))
   \<and> call None ''IN'' ''1:00''
       \<in> set (rows (team_stage (all_calls\<lparr>team_mode := B2C_team_only, include_missing := True\<rparr>)
                      agent_calls))
   \<and> call (Some ''Ria Arora'') ''IN'' ''1:00''
       \<in> set (rows (apply_filter True agent_calls ''Caller'' (Some [''Ria Arora''])))
   \<and> call (Some ''Ria Arora'') ''IN'' ''1:00''
       \<in> set (rows (team_stage (all_calls\<lparr>team_mode := B2C_team_only, include_missing := True\<rparr>)
                      agent_calls))
   \<and> call (Some ''Bob'') ''IN'' ''1:00''
       \<notin> set (rows (apply_filter True agent_calls ''Caller'' (Some [''Ria Arora''])))"
proof -
  have c: "''Caller'' \<in> set (columns agent_calls)" by (simp add: agent_calls_def)
  have r1: "call None ''IN'' ''1:00'' \<in> set (rows agent_calls)"
    and r2: "call (Some ''Ria Arora'') ''IN'' ''1:00'' \<in> set (rows agent_calls)"
    and r3: "call (Some ''Bob'') ''IN'' ''1:00'' \<in> set (rows agent_calls)"
    by (simp_all add: agent_calls_def)
  have k1: "Caller (call None ''IN'' ''1:00'') = None"
    and k2: "Caller (call (Some ''Ria Arora'') ''IN'' ''1:00'') = Some ''Ria Arora''"
    and k3: "Caller (call (Some ''Bob'') ''IN'' ''1:00'') = Some ''Bob''"
    by (simp_all add: call_def)
  note t1 = C5_include_missing_agent [where cfg = "all_calls\<lparr>team_mode := B2C_team_only\<rparr>"
      and s = "''Ria Arora''" and sel = "[]" and other = None and a = "[]", OF c r1]
  note t2 = C5_include_missing_agent [where cfg = "all_calls\<lparr>team_mode := B2C_team_only\<rparr>"
      and s = "''Ria Arora''" and sel = "[]" and other = None and a = "''Ria Arora''", OF c r2]
  note t3 = C5_include_missing_agent [where cfg = "all_calls\<lparr>team_mode := B2C_team_only\<rparr>"
      and s = "''Ria Arora''" and sel = "[]" and other = None and a = "''Bob''", OF c r3]
  from t1 k1 have a1: "call None ''IN'' ''1:00''
       \<in> set (rows (apply_filter True agent_calls ''Caller'' (Some [''Ria Arora''])))"
    and a2: "call None ''IN'' ''1:00''
       \<in> set (rows (team_stage (all_calls\<lparr>team_mode := B2C_team_only, include_missing := True\<rparr>)
                      agent_calls))"
    by simp_all
  from t2 k2 ria_on_roster have a3: "call (Some ''Ria Arora'') ''IN'' ''1:00''
       \<in> set (rows (apply_filter True agent_calls ''Caller'' (Some [''Ria Arora''])))"
    and a4: "call (Some ''Ria Arora'') ''IN'' ''1:00''
       \<in> set (rows (team_stage (all_calls\<lparr>team_mode := B2C_team_only, include_missing := True\<rparr>)
                      agent_calls))"
    by simp_all
  from t3 k3 have a5: "call (Some ''Bob'') ''IN'' ''1:00''
       \<notin> set (rows (apply_filter True agent_calls ''Caller'' (Some [''Ria Arora''])))"
    by simp
  show ?thesis by (intro conjI) (rule c r1 a1 a2 a3 a4 a5)+
qed

subsection \<open>Date parsing\<close>




subsection \<open>Aggregation\<close>

lemma sum_list_insort_key:
  "sum_list (map h (insort_key f x xs)) = h x + sum_list (map h xs)" for h :: "'a \<Rightarrow> nat"
  by (induction xs) auto

lemma sum_list_sort_key:
  "sum_list (map h (sort_key f xs)) = sum_list (map h xs)" for h :: "'a \<Rightarrow> nat"
  by (induction xs) (auto simp: sum_list_insort_key)

lemma sum_list_indicator:
  "distinct ks \<Longrightarrow> x \<in> set ks \<Longrightarrow>
     sum_list (map (\<lambda>k. if x = k then (1 :: nat) else 0) ks) = 1"
proof (induction ks)
  case Nil
  then show ?case by simp
next
  case (Cons k ks)
  show ?case
  proof (cases "x = k")
    case True
    with Cons.prems have "x \<notin> set ks" by simp
    then have "sum_list (map (\<lambda>k. if x = k then (1 :: nat) else 0) ks) = 0"
      by (induction ks) auto
    with True show ?thesis by simp
  next
    case False
    with Cons show ?thesis by simp
  qed
qed

lemma partition_count:
  assumes "distinct ks" "g ` set rs \<subseteq> set ks"
  shows "sum_list (map (\<lambda>k. length (filter (\<lambda>r. g r = k \<and> P r) rs)) ks)
           = length (filter P rs)"
  using assms(2)
proof (induction rs)
  case Nil
  show ?case by simp
next
  case (Cons r rs)
  have split: "length (filter (\<lambda>r. g r = k \<and> P r) (r # rs)) =
                 (if g r = k then (if P r then 1 else 0) else 0)
                 + length (filter (\<lambda>r. g r = k \<and> P r) rs)" for k
    by simp
  have ind: "sum_list (map (\<lambda>k. if g r = k then (if P r then 1 else 0 :: nat) else 0) ks)
               = (if P r then 1 else 0)"
  proof (cases "P r")
    case True
    from Cons.prems have "g r \<in> set ks" by simp
    from sum_list_indicator [OF assms(1) this] True show ?thesis by simp
  next
    case False
    then show ?thesis by auto
  qed
  from Cons have IH: "sum_list (map (\<lambda>k. length (filter (\<lambda>r. g r = k \<and> P r) rs)) ks)
           = length (filter P rs)" by simp
  show ?case
    unfolding split sum_list_addf ind IH by simp
qed

lemma key_agg_group [simp]: "key (agg_group df dims k) = k"
  by (simp add: agg_group_def Let_def)

lemma Total_Calls_agg_group:
  "Total_Calls (agg_group df dims k) =
     length (filter (\<lambda>r. group_key dims r = k \<and> \<not> isnan (duration_sec r)) (rows df))"
  by (simp add: agg_group_def Let_def agg_count_def notna_def group_values_def filter_map
      comp_def)

lemma set_group_keys: "set (group_keys df dims) = group_key dims ` set (rows df)"
  by (simp add: group_keys_def)

lemma distinct_group_keys: "distinct (group_keys df dims)"
  by (simp add: group_keys_def)

text \<open>
  What \<open>agg_summary\<close> does for every frame: it has exactly one row for each group key
  that occurs in the frame, a missing cell being a key value like any other, and its
  counts add up to the number of rows whose duration is not missing.
\<close>

lemma agg_summary_keys:
  "set (map key (agg_summary df dims)) = group_key dims ` set (rows df)"
  by (simp add: agg_summary_def set_group_keys image_image)

lemma agg_summary_distinct: "distinct (map key (agg_summary df dims))"
proof -
  have "distinct (map (agg_group df dims) (group_keys df dims))"
    by (rule iffD2 [OF distinct_map])
       (auto simp: distinct_group_keys inj_on_def dest: arg_cong [where f = key])
  moreover have "inj_on key (set (map (agg_group df dims) (group_keys df dims)))"
    by (auto simp: inj_on_def)
  ultimately show ?thesis
    by (simp add: agg_summary_def distinct_map)
qed

lemma agg_summary_counts:
  "sum_list (map Total_Calls (agg_summary df dims))
     = length (filter (\<lambda>r. \<not> isnan (duration_sec r)) (rows df))"
proof -
  have "sum_list (map Total_Calls (agg_summary df dims))
          = sum_list (map Total_Calls (map (agg_group df dims) (group_keys df dims)))"
    by (simp only: agg_summary_def sum_list_sort_key)
  also have "\<dots> = sum_list (map (\<lambda>k. length (filter (\<lambda>r. group_key dims r = k \<and>
                         \<not> isnan (duration_sec r)) (rows df))) (group_keys df dims))"
    by (simp add: comp_def Total_Calls_agg_group)
  also have "\<dots> = length (filter (\<lambda>r. \<not> isnan (duration_sec r)) (rows df))"
    by (rule partition_count) (simp_all add: distinct_group_keys set_group_keys)
  finally show ?thesis .
qed

text \<open>
  C1 at the failing input.  Agent A has two calls in the view, one of which has a
  duration that does not parse.  The overview counts two calls; the agent table reports
  one call for A, because pandas \<open>count\<close> counts the values that are not missing
  and not the rows of the group.
\<close>

theorem C1_count_skips_missing:
  "tab_agent all_calls (prepare unparsed_call) =
     Some [\<lparr> key = [Some ''A''], Total_Calls = 1, Total_Duration = Fin 60,
              Avg_Duration = Fin 60, Median_Duration = Fin 60 \<rparr>]
   \<and> kpi_total_calls all_calls (prepare unparsed_call) = 2
   \<and> map (group_key [''Caller'']) (rows (df_view all_calls (prepare unparsed_call)))
       = [[Some ''A''], [Some ''A'']]"
proof -
  have a: "tab_agent all_calls (prepare unparsed_call) =
     Some [\<lparr> key = [Some ''A''], Total_Calls = 1, Total_Duration = Fin 60,
              Avg_Duration = Fin 60, Median_Duration = Fin 60 \<rparr>]"
    by code_simp
  have b: "kpi_total_calls all_calls (prepare unparsed_call) = 2"
    by code_simp
  have c: "map (group_key [''Caller'']) (rows (df_view all_calls (prepare unparsed_call)))
       = [[Some ''A''], [Some ''A'']]"
    by code_simp
  show ?thesis by (intro conjI) (rule a b c)+
qed

end
